theory Spec2Isabelle
  imports Main
begin

section \<open>The launcher menu of Z-Fusion\<close>

text \<open>
  Both menu scripts (\<^verbatim>\<open>src/pinokio.js\<close> and \<^verbatim>\<open>src/unnamed/part_002\<close>) export a function
  \<^verbatim>\<open>menu(kernel, info)\<close> that reads three facts from the launcher and returns an array
  of menu entries. The argument \<^verbatim>\<open>kernel\<close> is never read and is left out of the model.
\<close>

subsection \<open>What the launcher is asked\<close>

text \<open>
  \<^verbatim>\<open>info.exists(path)\<close> and \<^verbatim>\<open>info.running(script)\<close> answer with a boolean;
  \<^verbatim>\<open>info.local(script)\<close> answers with the object of variables the script has published,
  or with nothing. An object is a finite map from property names to string values.
\<close>

record info =
  exists :: "string \<Rightarrow> bool"
  running :: "string \<Rightarrow> bool"
  local :: "string \<Rightarrow> (string \<rightharpoonup> string) option"

text \<open>
  The JavaScript test \<^verbatim>\<open>local && local.url\<close>: it passes when the object is there, has a
  property \<^verbatim>\<open>url\<close>, and that string is not the empty string (which JavaScript reads as
  false).
\<close>

definition local_url :: "(string \<rightharpoonup> string) option \<Rightarrow> string option" where
  "local_url l =
     (case l of
        None \<Rightarrow> None
      | Some obj \<Rightarrow>
          (case obj ''url'' of
             None \<Rightarrow> None
           | Some u \<Rightarrow> if u = [] then None else Some u))"

subsection \<open>The clock and its rendering\<close>

text \<open>
  \<^verbatim>\<open>Date.now()\<close> is an integral number of milliseconds. One evaluation of the menu may read
  the clock several times, and the readings need not agree: the clock is modelled as the
  sequence of its readings, \<open>now k\<close> being the value of the \<open>k\<close>-th call (from 0) made during
  the evaluation. Appending a number to a string writes it in decimal, with a leading minus
  sign when it is negative.
\<close>

definition digit :: "nat \<Rightarrow> char" where
  "digit d = char_of (48 + d)"

function digits :: "nat \<Rightarrow> string" where
  "digits n = (if n < 10 then [digit n] else digits (n div 10) @ [digit (n mod 10)])"
  by pat_completeness auto
termination
  by (relation "measure id") auto

declare digits.simps [simp del]

definition number_to_string :: "int \<Rightarrow> string" where
  "number_to_string i =
     (if i < 0 then CHR ''-'' # digits (nat (- i)) else digits (nat i))"

subsection \<open>Menu entries\<close>

text \<open>
  An entry is an object literal with the properties \<^verbatim>\<open>default\<close>, \<^verbatim>\<open>icon\<close>, \<^verbatim>\<open>text\<close>,
  \<^verbatim>\<open>href\<close>, \<^verbatim>\<open>menu\<close> and \<^verbatim>\<open>confirm\<close>; every one but \<^verbatim>\<open>icon\<close> and \<^verbatim>\<open>text\<close> is left out of
  some literal, so those are optional. A submenu is again a list of entries.
\<close>

datatype item =
  Item (item_default: "bool option") (item_icon: string) (item_text: string)
       (item_href: "string option") (item_menu: "item list option")
       (item_confirm: "string option")

definition is_default :: "item \<Rightarrow> bool" where
  "is_default it = (item_default it = Some True)"

subsection \<open>The menu of \<^verbatim>\<open>src/pinokio.js\<close>\<close>

definition menu_pinokio :: "info \<Rightarrow> (nat \<Rightarrow> int) \<Rightarrow> item list" where
  "menu_pinokio info now =
     (let installed = exists info ''app/env'';
          running_install = running info ''install.js'';
          running_start = running info ''start.js'';
          running_update = running info ''update.js'';
          running_reset = running info ''reset.js''
      in
        if running_install then
          [Item (Some True) ''fa-solid fa-plug'' ''Installing'' (Some ''install.js'') None None]
        else if installed then
          (if running_start then
             (case local_url (local info ''start.js'') of
                Some url \<Rightarrow>
                  [Item (Some True) ''fa-solid fa-rocket'' ''Open Web UI'' (Some url) None None,
                   Item None ''fa-solid fa-terminal'' ''Terminal'' (Some ''start.js'') None None]
              | None \<Rightarrow>
                  [Item (Some True) ''fa-solid fa-terminal'' ''Terminal'' (Some ''start.js'')
                     None None])
           else if running_update then
             [Item (Some True) ''fa-solid fa-terminal'' ''Updating'' (Some ''update.js'')
                None None]
           else if running_reset then
             [Item (Some True) ''fa-solid fa-terminal'' ''Resetting'' (Some ''reset.js'')
                None None]
           else
             [Item (Some True) ''fa-solid fa-power-off'' ''Start''
                (Some (''start.js?ts='' @ number_to_string (now 0))) None None,
              Item None ''fa-solid fa-power-off'' ''Start -w Optimization flags'' None
                (Some
                  [Item None ''fa-solid fa-power-off''
                     ''<div><strong>Start</strong><br><div>+SageAttention2</div></div>''
                     (Some (''start.js?sage=true&ts='' @ number_to_string (now 1))) None None,
                   Item None ''fa-solid fa-power-off''
                     ''<div><strong>Start</strong><br><div>+FlashAttention2</div></div>''
                     (Some (''start.js?flash=true&ts='' @ number_to_string (now 2))) None None])
                None,
              Item None ''fa-solid fa-plug'' ''Update'' (Some ''update.js'') None None,
              Item None ''fa-solid fa-plug'' ''Install'' (Some ''install.js'') None None,
              Item None ''fa-regular fa-circle-xmark'' ''Reset'' (Some ''reset.js'') None
                (Some ''Are you sure you wish to reset the app?'')])
        else
          [Item (Some True) ''fa-solid fa-plug'' ''Install'' (Some ''install.js'') None None])"

subsection \<open>The menu of \<^verbatim>\<open>src/unnamed/part_002\<close>\<close>

text \<open>
  The second script also asks whether \<^verbatim>\<open>quick_update.js\<close> runs, appends a clock reading
  to the published address, and offers the two updates in a submenu.
\<close>

definition menu_part_002 :: "info \<Rightarrow> (nat \<Rightarrow> int) \<Rightarrow> item list" where
  "menu_part_002 info now =
     (let installed = exists info ''app/env'';
          running_install = running info ''install.js'';
          running_start = running info ''start.js'';
          running_update = running info ''update.js'';
          running_quick_update = running info ''quick_update.js'';
          running_reset = running info ''reset.js''
      in
        if running_install then
          [Item (Some True) ''fa-solid fa-plug'' ''Installing'' (Some ''install.js'') None None]
        else if installed then
          (if running_start then
             (case local_url (local info ''start.js'') of
                Some url \<Rightarrow>
                  [Item (Some True) ''fa-solid fa-rocket'' ''Open Web UI''
                     (Some (url @ ''?ts='' @ number_to_string (now 0))) None None,
                   Item None ''fa-solid fa-terminal'' ''Terminal'' (Some ''start.js'') None None]
              | None \<Rightarrow>
                  [Item (Some True) ''fa-solid fa-terminal'' ''Terminal'' (Some ''start.js'')
                     None None])
           else if running_update \<or> running_quick_update then
             [Item (Some True) ''fa-solid fa-terminal'' ''Updating''
                (Some (if running_update then ''update.js'' else ''quick_update.js''))
                None None]
           else if running_reset then
             [Item (Some True) ''fa-solid fa-terminal'' ''Resetting'' (Some ''reset.js'')
                None None]
           else
             [Item (Some True) ''fa-solid fa-power-off'' ''Start''
                (Some (''start.js?ts='' @ number_to_string (now 0))) None None,
              Item None ''fa-solid fa-power-off'' ''Start -w Optimization flags'' None
                (Some
                  [Item None ''fa-solid fa-power-off''
                     ''<div><strong>Start</strong><br><div>+SageAttention2</div></div>''
                     (Some (''start.js?sage=true&ts='' @ number_to_string (now 1))) None None,
                   Item None ''fa-solid fa-power-off''
                     ''<div><strong>Start</strong><br><div>+FlashAttention2</div></div>''
                     (Some (''start.js?flash=true&ts='' @ number_to_string (now 2))) None None])
                None,
              Item None ''fa-solid fa-plug'' ''Update'' None
                (Some
                  [Item None ''fa-solid fa-bolt'' ''Quick Update (Git Pull only)''
                     (Some ''quick_update.js'') None None,
                   Item None ''fa-solid fa-plug'' ''Full Update (Everything)''
                     (Some ''update.js'') None None])
                None,
              Item None ''fa-solid fa-plug'' ''Install'' (Some ''install.js'') None None,
              Item None ''fa-regular fa-circle-xmark'' ''Reset'' (Some ''reset.js'') None
                (Some ''Are you sure you wish to reset the app?'')])
        else
          [Item (Some True) ''fa-solid fa-plug'' ''Install'' (Some ''install.js'') None None])"

text \<open>
  Every entry of a menu, the entries of its submenus included.
\<close>

fun entries :: "item \<Rightarrow> item list" where
  "entries (Item d i t h m c) =
     Item d i t h m c # (case m of None \<Rightarrow> [] | Some sub \<Rightarrow> concat (map entries sub))"

definition all_entries :: "item list \<Rightarrow> item list" where
  "all_entries its = concat (map entries its)"

section \<open>The provisioning scripts\<close>

text \<open>
  \<^verbatim>\<open>src/unnamed/part_000\<close> (the install script) and \<^verbatim>\<open>src/unnamed/part_001\<close> (the full
  update script) each export an array \<^verbatim>\<open>run\<close> of steps. A step names a method of the
  launcher and its parameters: \<^verbatim>\<open>shell.run\<close> with an optional \<^verbatim>\<open>venv\<close>, an optional
  \<^verbatim>\<open>path\<close> and a \<^verbatim>\<open>message\<close> that is one command line or an array of them;
  \<^verbatim>\<open>script.start\<close> with the \<^verbatim>\<open>uri\<close> of another script and its parameters;
  \<^verbatim>\<open>fs.link\<close> with the \<^verbatim>\<open>drive\<close> table and the \<^verbatim>\<open>peers\<close>.
\<close>

datatype message = Single string | Sequence "string list"

datatype config_value = Flag bool | Text string

datatype step =
    ShellRun "string option" "string option" message
  | ScriptStart string "(string \<times> config_value) list"
  | FsLink "(string \<times> string) list" "string list"

text \<open>The array of \<^verbatim>\<open>src/unnamed/part_000\<close>.\<close>

definition install_run :: "step list" where
  "install_run =
     [ShellRun None None (Sequence
        [''git clone https://github.com/comfyanonymous/ComfyUI app/comfyui'',
         ''git clone https://github.com/ltdrdata/ComfyUI-Manager app/comfyui/custom_nodes/ComfyUI-Manager'',
         ''git clone https://github.com/city96/ComfyUI-GGUF app/comfyui/custom_nodes/ComfyUI-GGUF'',
         ''git clone https://github.com/numz/ComfyUI-SeedVR2_VideoUpscaler app/comfyui/custom_nodes/ComfyUI-SeedVR2_VideoUpscaler'',
         ''git clone https://github.com/Kosinkadink/ComfyUI-VideoHelperSuite.git app/comfyui/custom_nodes/ComfyUI-VideoHelperSuite'',
         ''git clone https://github.com/ChangeTheConstants/SeedVarianceEnhancer.git app/comfyui/custom_nodes/SeedVarianceEnhancer'',
         ''git clone https://github.com/demon4932/CameraPromptsGenerator.git app/CameraPromptsGenerator'']),
      ShellRun (Some ''env'') (Some ''app'') (Sequence
        [''uv pip install -r comfyui/requirements.txt'',
         ''uv pip install -r requirements.txt'',
         ''uv pip install gguf>=0.13.0 sentencepiece protobuf'',
         ''uv pip install einops omegaconf>=2.3.0 diffusers>=0.33.1 peft>=0.17.0 rotary_embedding_torch>=0.5.3 opencv-python matplotlib imageio-ffmpeg'']),
      ScriptStart ''torch.js''
        [(''venv'', Text ''env''), (''path'', Text ''app''), (''flashattention'', Flag True),
         (''triton'', Flag True), (''sageattention'', Flag True)],
      FsLink
        [(''checkpoints'', ''app/comfyui/models/checkpoints''),
         (''clip'', ''app/comfyui/models/clip''),
         (''clip_vision'', ''app/comfyui/models/clip_vision''),
         (''configs'', ''app/comfyui/models/configs''),
         (''controlnet'', ''app/comfyui/models/controlnet''),
         (''diffusers'', ''app/comfyui/models/diffusers''),
         (''diffusion_models'', ''app/comfyui/models/diffusion_models''),
         (''embeddings'', ''app/comfyui/models/embeddings''),
         (''gligen'', ''app/comfyui/models/gligen''),
         (''hypernetworks'', ''app/comfyui/models/hypernetworks''),
         (''ipadapter'', ''app/comfyui/models/ipadapter''),
         (''loras'', ''app/comfyui/models/loras''),
         (''photomaker'', ''app/comfyui/models/photomaker''),
         (''SEEDVR2'', ''app/comfyui/models/SEEDVR2''),
         (''model_patches'', ''app/comfyui/models/model_patches''),
         (''style_models'', ''app/comfyui/models/style_models''),
         (''text_encoders'', ''app/comfyui/models/text_encoders''),
         (''unet'', ''app/comfyui/models/unet''),
         (''upscale_models'', ''app/comfyui/models/upscale_models''),
         (''vae'', ''app/comfyui/models/vae''),
         (''vae_approx'', ''app/comfyui/models/VAE-approx''),
         (''output'', ''app/comfyui/output'')]
        [''https://github.com/cocktailpeanut/fluxgym.git'',
         ''https://github.com/cocktailpeanutlabs/automatic1111.git'',
         ''https://github.com/cocktailpeanutlabs/fooocus.git'',
         ''https://github.com/cocktailpeanutlabs/comfyui.git'',
         ''https://github.com/pinokiofactory/comfy.git'',
         ''https://github.com/pinokiofactory/stable-diffusion-webui-forge.git'']]"

text \<open>The array of \<^verbatim>\<open>src/unnamed/part_001\<close>.\<close>

definition update_run :: "step list" where
  "update_run =
     [ShellRun None None (Single ''git pull''),
      ShellRun None (Some ''app'') (Sequence
        [''git -C comfyui pull || git clone https://github.com/comfyanonymous/ComfyUI.git comfyui'',
         ''git -C comfyui/custom_nodes/ComfyUI-Manager pull || git clone https://github.com/ltdrdata/ComfyUI-Manager.git comfyui/custom_nodes/ComfyUI-Manager'',
         ''git -C comfyui/custom_nodes/ComfyUI-GGUF pull || git clone https://github.com/city96/ComfyUI-GGUF.git comfyui/custom_nodes/ComfyUI-GGUF'',
         ''git -C comfyui/custom_nodes/ComfyUI-SeedVR2_VideoUpscaler pull || git clone https://github.com/SeedVR2/ComfyUI-SeedVR2_VideoUpscaler.git comfyui/custom_nodes/ComfyUI-SeedVR2_VideoUpscaler'',
         ''git -C comfyui/custom_nodes/ComfyUI-VideoHelperSuite pull || git clone https://github.com/Kosinkadink/ComfyUI-VideoHelperSuite.git comfyui/custom_nodes/ComfyUI-VideoHelperSuite'',
         ''git -C comfyui/custom_nodes/SeedVarianceEnhancer pull || git clone https://github.com/ChangeTheConstants/SeedVarianceEnhancer.git comfyui/custom_nodes/SeedVarianceEnhancer'',
         ''git -C CameraPromptsGenerator pull || git clone https://github.com/demon4932/CameraPromptsGenerator.git CameraPromptsGenerator'']),
      ShellRun (Some ''env'') (Some ''app'') (Sequence
        [''uv pip install -r comfyui/requirements.txt'',
         ''uv pip install -r requirements.txt'',
         ''uv pip install gguf>=0.13.0 sentencepiece protobuf'',
         ''uv pip install einops omegaconf>=2.3.0 diffusers>=0.33.1 peft>=0.17.0 rotary_embedding_torch>=0.5.3 opencv-python matplotlib imageio-ffmpeg'']),
      ScriptStart ''torch.js'' [(''venv'', Text ''env''), (''path'', Text ''app'')]]"

fun commands :: "step \<Rightarrow> string list" where
  "commands (ShellRun v p (Single c)) = [c]"
| "commands (ShellRun v p (Sequence cs)) = cs"
| "commands (ScriptStart u ps) = []"
| "commands (FsLink d ps) = []"

fun working_dir :: "step \<Rightarrow> string option" where
  "working_dir (ShellRun v p m) = p"
| "working_dir (ScriptStart u ps) = None"
| "working_dir (FsLink d ps) = None"

subsection \<open>Reading the command lines\<close>

text \<open>
  The command lines are plain strings. To say what a line does to a checkout it is split
  into words at blanks and into alternatives at \<^verbatim>\<open>||\<close> (the next alternative runs only
  when the one before it has failed), each alternative being \<^verbatim>\<open>git pull\<close> in the working
  directory, \<^verbatim>\<open>git -C dir pull\<close>, \<^verbatim>\<open>git clone url dir\<close>, or something else. Quoting
  and redirection are not interpreted: the git lines of the two scripts contain neither,
  and of the other lines only the first three words are ever looked at.
\<close>

fun split_on :: "'a \<Rightarrow> 'a list \<Rightarrow> 'a list list" where
  "split_on c [] = [[]]"
| "split_on c (x # xs) =
     (if x = c then [] # split_on c xs
      else (case split_on c xs of [] \<Rightarrow> [[x]] | w # ws \<Rightarrow> (x # w) # ws))"

definition shell_words :: "string \<Rightarrow> string list" where
  "shell_words s = filter (\<lambda>w. w \<noteq> []) (split_on CHR '' '' s)"

datatype git_op = Pull "string option" | Clone string string | NoGitOp

fun git_op_of :: "string list \<Rightarrow> git_op" where
  "git_op_of [a, b] = (if a = ''git'' \<and> b = ''pull'' then Pull None else NoGitOp)"
| "git_op_of [a, b, c, d] =
     (if a = ''git'' \<and> b = ''-C'' \<and> d = ''pull'' then Pull (Some c)
      else if a = ''git'' \<and> b = ''clone'' then Clone c d
      else NoGitOp)"
| "git_op_of ws = NoGitOp"

definition alternatives :: "string \<Rightarrow> git_op list" where
  "alternatives cmd = map git_op_of (split_on ''||'' (shell_words cmd))"

text \<open>
  A line is of the pull-or-else-clone form when it has exactly two alternatives, a pull
  inside a named directory and then a clone into that same directory.
\<close>

definition pull_or_else_clone :: "string \<Rightarrow> bool" where
  "pull_or_else_clone cmd =
     (case alternatives cmd of
        [Pull (Some d), Clone u d'] \<Rightarrow> d = d'
      | _ \<Rightarrow> False)"

fun checkout_of_op :: "git_op \<Rightarrow> string option" where
  "checkout_of_op (Pull (Some d)) = Some d"
| "checkout_of_op (Pull None) = None"
| "checkout_of_op (Clone u d) = Some d"
| "checkout_of_op NoGitOp = None"

definition checkout_of :: "string \<Rightarrow> string option" where
  "checkout_of cmd = (case alternatives cmd of [] \<Rightarrow> None | op # ops \<Rightarrow> checkout_of_op op)"

definition resolve :: "string option \<Rightarrow> string \<Rightarrow> string" where
  "resolve dir p = (case dir of None \<Rightarrow> p | Some d \<Rightarrow> d @ ''/'' @ p)"

definition step_checkouts :: "step \<Rightarrow> string list" where
  "step_checkouts s = map (resolve (working_dir s)) (List.map_filter checkout_of (commands s))"

definition managed_checkouts :: "step list \<Rightarrow> string list" where
  "managed_checkouts p = concat (map step_checkouts p)"

subsection \<open>Kinds of steps\<close>

datatype step_kind =
  SelfPull | PullOrElseClone | FreshClone | DependencyInstall | Bootstrap | LinkResources
  | OtherStep

definition installs_requirements :: "string \<Rightarrow> bool" where
  "installs_requirements cmd = (take 3 (shell_words cmd) = [''uv'', ''pip'', ''install''])"

definition fresh_clone :: "string \<Rightarrow> bool" where
  "fresh_clone cmd = (case alternatives cmd of [Clone u d] \<Rightarrow> True | _ \<Rightarrow> False)"

text \<open>
  A shell step is classified by what all of its command lines do and by where they run.
  A pull of the launcher's own checkout is a step with neither \<^verbatim>\<open>path\<close> nor \<^verbatim>\<open>venv\<close>
  (so it runs in the directory of the scripts themselves) whose lines are all a bare
  \<^verbatim>\<open>git pull\<close>; a dependency-install step is one that runs inside a named virtual
  environment. The delegated bootstrap is the start of \<^verbatim>\<open>torch.js\<close>.
\<close>

fun kind_of :: "step \<Rightarrow> step_kind" where
  "kind_of (ShellRun v p m) =
     (let cs = commands (ShellRun v p m) in
      if cs = [] then OtherStep
      else if list_all pull_or_else_clone cs then PullOrElseClone
      else if v = None \<and> p = None \<and> list_all (\<lambda>c. alternatives c = [Pull None]) cs
        then SelfPull
      else if list_all fresh_clone cs then FreshClone
      else if v \<noteq> None \<and> list_all installs_requirements cs then DependencyInstall
      else OtherStep)"
| "kind_of (ScriptStart u ps) = (if u = ''torch.js'' then Bootstrap else OtherStep)"
| "kind_of (FsLink d ps) = LinkResources"

section \<open>Sample states of the launcher\<close>

text \<open>A clock that advances by one millisecond between two readings.\<close>

definition clock :: "nat \<Rightarrow> int" where
  "clock k = 1762099200000 + int k"

definition clock_later :: "nat \<Rightarrow> int" where
  "clock_later k = clock (Suc k)"

text \<open>Everything exists and every script runs, the start script having published its address.\<close>

definition state_all_running :: info where
  "state_all_running =
     \<lparr>exists = (\<lambda>p. True),
      running = (\<lambda>s. True),
      local = (\<lambda>s. if s = ''start.js'' then Some [''url'' \<mapsto> ''http://localhost:7860''] else None)\<rparr>"

text \<open>Nothing is installed; every script but the install script is reported as running.\<close>

definition state_not_installed :: info where
  "state_not_installed =
     \<lparr>exists = (\<lambda>p. False), running = (\<lambda>s. s \<noteq> ''install.js''), local = (\<lambda>s. None)\<rparr>"

text \<open>Installed, nothing runs.\<close>

definition state_idle :: info where
  "state_idle =
     \<lparr>exists = (\<lambda>p. p = ''app/env''), running = (\<lambda>s. False), local = (\<lambda>s. None)\<rparr>"

text \<open>Installed, the start script runs and has published its address.\<close>

definition state_started :: info where
  "state_started =
     \<lparr>exists = (\<lambda>p. p = ''app/env''),
      running = (\<lambda>s. s = ''start.js''),
      local = (\<lambda>s. if s = ''start.js'' then Some [''url'' \<mapsto> ''http://localhost:7860''] else None)\<rparr>"

text \<open>Installed, the start script runs and has published nothing yet.\<close>

definition state_starting :: info where
  "state_starting =
     \<lparr>exists = (\<lambda>p. p = ''app/env''),
      running = (\<lambda>s. s = ''start.js''),
      local = (\<lambda>s. if s = ''start.js'' then Some Map.empty else None)\<rparr>"

text \<open>Installed, both update scripts are reported as running.\<close>

definition state_both_updates :: info where
  "state_both_updates =
     \<lparr>exists = (\<lambda>p. p = ''app/env''),
      running = (\<lambda>s. s = ''update.js'' \<or> s = ''quick_update.js''),
      local = (\<lambda>s. None)\<rparr>"

section \<open>The decimal rendering is injective\<close>

lemma digit_inj: "a < 10 \<Longrightarrow> b < 10 \<Longrightarrow> digit a = digit b \<Longrightarrow> a = b"
  by (simp add: digit_def)

lemma digit_not_minus: "d < 10 \<Longrightarrow> digit d \<noteq> CHR ''-''"
  by (simp add: digit_def char_of_eq_iff take_bit_eq_mod)

lemma digits_not_Nil: "digits n \<noteq> []"
  by (subst digits.simps) simp

lemma hd_digits_not_minus: "hd (digits n) \<noteq> CHR ''-''"
proof (induction n rule: digits.induct)
  case (1 n)
  show ?case
  proof (cases "n < 10")
    case True
    then show ?thesis
      by (subst digits.simps) (simp add: digit_not_minus)
  next
    case False
    with 1 show ?thesis
      by (subst digits.simps) (simp add: digits_not_Nil)
  qed
qed

lemma digits_inj: "digits m = digits n \<Longrightarrow> m = n"
proof (induction m arbitrary: n rule: digits.induct)
  case (1 m)
  show ?case
  proof (cases "m < 10")
    case m: True
    show ?thesis
    proof (cases "n < 10")
      case True
      with m 1(2) show ?thesis
        by (simp add: digits.simps [of m] digits.simps [of n] digit_inj)
    next
      case False
      with m 1(2) show ?thesis
        using digits_not_Nil [of "n div 10"]
        by (simp add: digits.simps [of m] digits.simps [of n])
    qed
  next
    case m: False
    show ?thesis
    proof (cases "n < 10")
      case True
      with m 1(2) show ?thesis
        using digits_not_Nil [of "m div 10"]
        by (simp add: digits.simps [of m] digits.simps [of n])
    next
      case False
      with m 1(2) have e: "digits (m div 10) = digits (n div 10)"
        and d: "digit (m mod 10) = digit (n mod 10)"
        by (simp_all add: digits.simps [of m] digits.simps [of n])
      from 1(1) [OF m e] have "m div 10 = n div 10" .
      moreover from d have "m mod 10 = n mod 10"
        by (auto dest!: digit_inj [rotated 2])
      ultimately show ?thesis
        by (metis div_mult_mod_eq)
    qed
  qed
qed

lemma minus_digits_neq: "CHR ''-'' # digits m \<noteq> digits n"
proof
  assume "CHR ''-'' # digits m = digits n"
  then have "hd (digits n) = CHR ''-''"
    by (metis list.sel(1))
  with hd_digits_not_minus [of n] show False ..
qed

lemma number_to_string_inj: "number_to_string i = number_to_string j \<Longrightarrow> i = j"
  using minus_digits_neq [of "nat (- i)" "nat j"] minus_digits_neq [of "nat (- j)" "nat i"]
  by (auto simp: number_to_string_def split: if_splits dest!: digits_inj)

lemma number_to_string_clock:
  "number_to_string (clock 0) = ''1762099200000''"
  "number_to_string (clock (Suc 0)) = ''1762099200001''"
  "number_to_string (clock 2) = ''1762099200002''"
  by (simp_all add: clock_def number_to_string_def digits.simps digit_def char_of_eq_iff)

section \<open>The branches of the two menus\<close>

lemma menu_pinokio_installing:
  "running info ''install.js'' \<Longrightarrow>
   menu_pinokio info now =
     [Item (Some True) ''fa-solid fa-plug'' ''Installing'' (Some ''install.js'') None None]"
  by (simp add: menu_pinokio_def)

lemma menu_pinokio_not_installed:
  "\<not> running info ''install.js'' \<Longrightarrow> \<not> exists info ''app/env'' \<Longrightarrow>
   menu_pinokio info now =
     [Item (Some True) ''fa-solid fa-plug'' ''Install'' (Some ''install.js'') None None]"
  by (simp add: menu_pinokio_def)

lemma menu_pinokio_started:
  "\<not> running info ''install.js'' \<Longrightarrow> exists info ''app/env'' \<Longrightarrow>
   running info ''start.js'' \<Longrightarrow>
   menu_pinokio info now =
     (case local_url (local info ''start.js'') of
        Some url \<Rightarrow>
          [Item (Some True) ''fa-solid fa-rocket'' ''Open Web UI'' (Some url) None None,
           Item None ''fa-solid fa-terminal'' ''Terminal'' (Some ''start.js'') None None]
      | None \<Rightarrow>
          [Item (Some True) ''fa-solid fa-terminal'' ''Terminal'' (Some ''start.js'')
             None None])"
  by (simp add: menu_pinokio_def)

lemma menu_pinokio_updating:
  "\<not> running info ''install.js'' \<Longrightarrow> exists info ''app/env'' \<Longrightarrow>
   \<not> running info ''start.js'' \<Longrightarrow> running info ''update.js'' \<Longrightarrow>
   menu_pinokio info now =
     [Item (Some True) ''fa-solid fa-terminal'' ''Updating'' (Some ''update.js'') None None]"
  by (simp add: menu_pinokio_def)

lemma menu_pinokio_resetting:
  "\<not> running info ''install.js'' \<Longrightarrow> exists info ''app/env'' \<Longrightarrow>
   \<not> running info ''start.js'' \<Longrightarrow> \<not> running info ''update.js'' \<Longrightarrow>
   running info ''reset.js'' \<Longrightarrow>
   menu_pinokio info now =
     [Item (Some True) ''fa-solid fa-terminal'' ''Resetting'' (Some ''reset.js'') None None]"
  by (simp add: menu_pinokio_def)

lemma menu_pinokio_idle:
  "\<not> running info ''install.js'' \<Longrightarrow> exists info ''app/env'' \<Longrightarrow>
   \<not> running info ''start.js'' \<Longrightarrow> \<not> running info ''update.js'' \<Longrightarrow>
   \<not> running info ''reset.js'' \<Longrightarrow>
   menu_pinokio info now =
     [Item (Some True) ''fa-solid fa-power-off'' ''Start''
        (Some (''start.js?ts='' @ number_to_string (now 0))) None None,
      Item None ''fa-solid fa-power-off'' ''Start -w Optimization flags'' None
        (Some
          [Item None ''fa-solid fa-power-off''
             ''<div><strong>Start</strong><br><div>+SageAttention2</div></div>''
             (Some (''start.js?sage=true&ts='' @ number_to_string (now 1))) None None,
           Item None ''fa-solid fa-power-off''
             ''<div><strong>Start</strong><br><div>+FlashAttention2</div></div>''
             (Some (''start.js?flash=true&ts='' @ number_to_string (now 2))) None None])
        None,
      Item None ''fa-solid fa-plug'' ''Update'' (Some ''update.js'') None None,
      Item None ''fa-solid fa-plug'' ''Install'' (Some ''install.js'') None None,
      Item None ''fa-regular fa-circle-xmark'' ''Reset'' (Some ''reset.js'') None
        (Some ''Are you sure you wish to reset the app?'')]"
  by (simp add: menu_pinokio_def)

lemma menu_part_002_installing:
  "running info ''install.js'' \<Longrightarrow>
   menu_part_002 info now =
     [Item (Some True) ''fa-solid fa-plug'' ''Installing'' (Some ''install.js'') None None]"
  by (simp add: menu_part_002_def)

lemma menu_part_002_not_installed:
  "\<not> running info ''install.js'' \<Longrightarrow> \<not> exists info ''app/env'' \<Longrightarrow>
   menu_part_002 info now =
     [Item (Some True) ''fa-solid fa-plug'' ''Install'' (Some ''install.js'') None None]"
  by (simp add: menu_part_002_def)

lemma menu_part_002_started:
  "\<not> running info ''install.js'' \<Longrightarrow> exists info ''app/env'' \<Longrightarrow>
   running info ''start.js'' \<Longrightarrow>
   menu_part_002 info now =
     (case local_url (local info ''start.js'') of
        Some url \<Rightarrow>
          [Item (Some True) ''fa-solid fa-rocket'' ''Open Web UI''
             (Some (url @ ''?ts='' @ number_to_string (now 0))) None None,
           Item None ''fa-solid fa-terminal'' ''Terminal'' (Some ''start.js'') None None]
      | None \<Rightarrow>
          [Item (Some True) ''fa-solid fa-terminal'' ''Terminal'' (Some ''start.js'')
             None None])"
  by (simp add: menu_part_002_def)

lemma menu_part_002_updating:
  "\<not> running info ''install.js'' \<Longrightarrow> exists info ''app/env'' \<Longrightarrow>
   \<not> running info ''start.js'' \<Longrightarrow>
   running info ''update.js'' \<or> running info ''quick_update.js'' \<Longrightarrow>
   menu_part_002 info now =
     [Item (Some True) ''fa-solid fa-terminal'' ''Updating''
        (Some (if running info ''update.js'' then ''update.js'' else ''quick_update.js''))
        None None]"
  by (simp add: menu_part_002_def)

lemma menu_part_002_resetting:
  "\<not> running info ''install.js'' \<Longrightarrow> exists info ''app/env'' \<Longrightarrow>
   \<not> running info ''start.js'' \<Longrightarrow> \<not> running info ''update.js'' \<Longrightarrow>
   \<not> running info ''quick_update.js'' \<Longrightarrow> running info ''reset.js'' \<Longrightarrow>
   menu_part_002 info now =
     [Item (Some True) ''fa-solid fa-terminal'' ''Resetting'' (Some ''reset.js'') None None]"
  by (simp add: menu_part_002_def)

lemma menu_part_002_idle:
  "\<not> running info ''install.js'' \<Longrightarrow> exists info ''app/env'' \<Longrightarrow>
   \<not> running info ''start.js'' \<Longrightarrow> \<not> running info ''update.js'' \<Longrightarrow>
   \<not> running info ''quick_update.js'' \<Longrightarrow> \<not> running info ''reset.js'' \<Longrightarrow>
   menu_part_002 info now =
     [Item (Some True) ''fa-solid fa-power-off'' ''Start''
        (Some (''start.js?ts='' @ number_to_string (now 0))) None None,
      Item None ''fa-solid fa-power-off'' ''Start -w Optimization flags'' None
        (Some
          [Item None ''fa-solid fa-power-off''
             ''<div><strong>Start</strong><br><div>+SageAttention2</div></div>''
             (Some (''start.js?sage=true&ts='' @ number_to_string (now 1))) None None,
           Item None ''fa-solid fa-power-off''
             ''<div><strong>Start</strong><br><div>+FlashAttention2</div></div>''
             (Some (''start.js?flash=true&ts='' @ number_to_string (now 2))) None None])
        None,
      Item None ''fa-solid fa-plug'' ''Update'' None
        (Some
          [Item None ''fa-solid fa-bolt'' ''Quick Update (Git Pull only)''
             (Some ''quick_update.js'') None None,
           Item None ''fa-solid fa-plug'' ''Full Update (Everything)''
             (Some ''update.js'') None None])
        None,
      Item None ''fa-solid fa-plug'' ''Install'' (Some ''install.js'') None None,
      Item None ''fa-regular fa-circle-xmark'' ''Reset'' (Some ''reset.js'') None
        (Some ''Are you sure you wish to reset the app?'')]"
  by (simp add: menu_part_002_def)

text \<open>The number of entries marked default, branch by branch.\<close>

lemma defaults_pinokio:
  "length (filter is_default (all_entries (menu_pinokio info now))) = 1
   \<and> length (filter is_default (menu_pinokio info now)) = 1"
proof -
  consider
      (installing) "running info ''install.js''"
    | (not_installed) "\<not> running info ''install.js''" "\<not> exists info ''app/env''"
    | (started) "\<not> running info ''install.js''" "exists info ''app/env''"
        "running info ''start.js''"
    | (updating) "\<not> running info ''install.js''" "exists info ''app/env''"
        "\<not> running info ''start.js''" "running info ''update.js''"
    | (resetting) "\<not> running info ''install.js''" "exists info ''app/env''"
        "\<not> running info ''start.js''" "\<not> running info ''update.js''"
        "running info ''reset.js''"
    | (idle) "\<not> running info ''install.js''" "exists info ''app/env''"
        "\<not> running info ''start.js''" "\<not> running info ''update.js''"
        "\<not> running info ''reset.js''"
    by blast
  then show ?thesis
  proof cases
    case installing
    then show ?thesis
      by (simp add: menu_pinokio_installing all_entries_def is_default_def)
  next
    case not_installed
    then show ?thesis
      by (simp add: menu_pinokio_not_installed all_entries_def is_default_def)
  next
    case started
    then show ?thesis
      by (simp add: menu_pinokio_started all_entries_def is_default_def split: option.split)
  next
    case updating
    then show ?thesis
      by (simp add: menu_pinokio_updating all_entries_def is_default_def)
  next
    case resetting
    then show ?thesis
      by (simp add: menu_pinokio_resetting all_entries_def is_default_def)
  next
    case idle
    then show ?thesis
      by (simp add: menu_pinokio_idle all_entries_def is_default_def)
  qed
qed

lemma defaults_part_002:
  "length (filter is_default (all_entries (menu_part_002 info now))) = 1
   \<and> length (filter is_default (menu_part_002 info now)) = 1"
proof -
  consider
      (installing) "running info ''install.js''"
    | (not_installed) "\<not> running info ''install.js''" "\<not> exists info ''app/env''"
    | (started) "\<not> running info ''install.js''" "exists info ''app/env''"
        "running info ''start.js''"
    | (updating) "\<not> running info ''install.js''" "exists info ''app/env''"
        "\<not> running info ''start.js''"
        "running info ''update.js'' \<or> running info ''quick_update.js''"
    | (resetting) "\<not> running info ''install.js''" "exists info ''app/env''"
        "\<not> running info ''start.js''" "\<not> running info ''update.js''"
        "\<not> running info ''quick_update.js''" "running info ''reset.js''"
    | (idle) "\<not> running info ''install.js''" "exists info ''app/env''"
        "\<not> running info ''start.js''" "\<not> running info ''update.js''"
        "\<not> running info ''quick_update.js''" "\<not> running info ''reset.js''"
    by blast
  then show ?thesis
  proof cases
    case installing
    then show ?thesis
      by (simp add: menu_part_002_installing all_entries_def is_default_def)
  next
    case not_installed
    then show ?thesis
      by (simp add: menu_part_002_not_installed all_entries_def is_default_def)
  next
    case started
    then show ?thesis
      by (simp add: menu_part_002_started all_entries_def is_default_def split: option.split)
  next
    case updating
    from menu_part_002_updating [OF updating, of now] show ?thesis
      by (simp add: all_entries_def is_default_def)
  next
    case resetting
    then show ?thesis
      by (simp add: menu_part_002_resetting all_entries_def is_default_def)
  next
    case idle
    then show ?thesis
      by (simp add: menu_part_002_idle all_entries_def is_default_def)
  qed
qed

section \<open>The menu\<close>

text \<open>
  C6. Whenever the install script runs, whatever the other answers of the launcher are,
  both menus consist of the single entry ``Installing'', marked default, whose target is
  the install script.
\<close>

theorem installing_dominates:
  assumes "running info ''install.js''"
  shows "menu_pinokio info now =
           [Item (Some True) ''fa-solid fa-plug'' ''Installing'' (Some ''install.js'') None None]
         \<and> menu_part_002 info now =
           [Item (Some True) ''fa-solid fa-plug'' ''Installing'' (Some ''install.js'') None None]"
  using assms by (simp add: menu_pinokio_installing menu_part_002_installing)

theorem installing_dominates_witness:
  "running state_all_running ''install.js''
   \<and> exists state_all_running ''app/env''
   \<and> running state_all_running ''start.js''
   \<and> menu_pinokio state_all_running clock =
       [Item (Some True) ''fa-solid fa-plug'' ''Installing'' (Some ''install.js'') None None]
   \<and> menu_part_002 state_all_running clock =
       [Item (Some True) ''fa-solid fa-plug'' ''Installing'' (Some ''install.js'') None None]"
proof -
  have r: "running state_all_running ''install.js''"
    by (simp add: state_all_running_def)
  show ?thesis
    using r installing_dominates [OF r, of clock] by (simp add: state_all_running_def)
qed

text \<open>
  C7. When the environment marker is missing and the install script does not run, both
  menus consist of the single entry ``Install'', marked default, whatever is reported
  about the start, update, quick-update and reset scripts.
\<close>

theorem not_installed_offers_install:
  assumes "\<not> exists info ''app/env''" and "\<not> running info ''install.js''"
  shows "menu_pinokio info now =
           [Item (Some True) ''fa-solid fa-plug'' ''Install'' (Some ''install.js'') None None]
         \<and> menu_part_002 info now =
           [Item (Some True) ''fa-solid fa-plug'' ''Install'' (Some ''install.js'') None None]"
  using assms by (simp add: menu_pinokio_not_installed menu_part_002_not_installed)

theorem not_installed_offers_install_witness:
  "\<not> exists state_not_installed ''app/env''
   \<and> \<not> running state_not_installed ''install.js''
   \<and> running state_not_installed ''start.js''
   \<and> running state_not_installed ''update.js''
   \<and> running state_not_installed ''quick_update.js''
   \<and> running state_not_installed ''reset.js''
   \<and> menu_pinokio state_not_installed clock =
       [Item (Some True) ''fa-solid fa-plug'' ''Install'' (Some ''install.js'') None None]
   \<and> menu_part_002 state_not_installed clock =
       [Item (Some True) ''fa-solid fa-plug'' ''Install'' (Some ''install.js'') None None]"
proof -
  have e: "\<not> exists state_not_installed ''app/env''"
    and r: "\<not> running state_not_installed ''install.js''"
    by (simp_all add: state_not_installed_def)
  show ?thesis
    using e r not_installed_offers_install [OF e r, of clock]
    by (simp add: state_not_installed_def)
qed

text \<open>
  C9. Both menus are non-empty for every answer of the launcher and every clock.
\<close>

theorem menu_not_empty:
  "menu_pinokio info now \<noteq> [] \<and> menu_part_002 info now \<noteq> []"
  using defaults_pinokio [of info now] defaults_part_002 [of info now]
  by (auto simp del: length_0_conv)

text \<open>
  C10. The menu of \<^verbatim>\<open>src/pinokio.js\<close> does not depend on what the launcher reports about
  \<^verbatim>\<open>quick_update.js\<close>: changing that one answer, and nothing else, leaves the menu as
  it is.
\<close>

theorem pinokio_ignores_quick_update:
  "menu_pinokio (info\<lparr>running := (running info)(''quick_update.js'' := b)\<rparr>) now
   = menu_pinokio info now"
  by (simp add: menu_pinokio_def)

text \<open>
  C4. Installed, neither the install nor the start script running, and both update
  scripts reported as running: the menu of \<^verbatim>\<open>src/unnamed/part_002\<close> is the single entry
  ``Updating'', marked default, and its target is the full update \<^verbatim>\<open>update.js\<close>. The
  function has no failing branch, so a value is returned. The menu of
  \<^verbatim>\<open>src/pinokio.js\<close> gives the same entry.
\<close>

theorem both_updates_full_update_wins:
  assumes "exists info ''app/env''"
    and "\<not> running info ''install.js''" and "\<not> running info ''start.js''"
    and "running info ''update.js''" and "running info ''quick_update.js''"
  shows "menu_part_002 info now =
           [Item (Some True) ''fa-solid fa-terminal'' ''Updating'' (Some ''update.js'') None None]
         \<and> menu_pinokio info now =
           [Item (Some True) ''fa-solid fa-terminal'' ''Updating'' (Some ''update.js'') None None]"
  using assms by (simp add: menu_pinokio_updating menu_part_002_updating)

theorem both_updates_full_update_wins_witness:
  "exists state_both_updates ''app/env''
   \<and> \<not> running state_both_updates ''install.js''
   \<and> \<not> running state_both_updates ''start.js''
   \<and> running state_both_updates ''update.js''
   \<and> running state_both_updates ''quick_update.js''
   \<and> menu_part_002 state_both_updates clock =
       [Item (Some True) ''fa-solid fa-terminal'' ''Updating'' (Some ''update.js'') None None]
   \<and> menu_pinokio state_both_updates clock =
       [Item (Some True) ''fa-solid fa-terminal'' ''Updating'' (Some ''update.js'') None None]"
proof -
  have h: "exists state_both_updates ''app/env''"
    "\<not> running state_both_updates ''install.js''"
    "\<not> running state_both_updates ''start.js''"
    "running state_both_updates ''update.js''"
    "running state_both_updates ''quick_update.js''"
    by (simp_all add: state_both_updates_def)
  show ?thesis
    using h both_updates_full_update_wins [OF h, of clock] by simp
qed

text \<open>
  C5. In both menus at most one entry is marked default, submenu entries counted too,
  and when the environment marker exists exactly one entry of the returned list is marked
  default.
\<close>

theorem one_default:
  "length (filter is_default (all_entries (menu_pinokio info now))) \<le> 1
   \<and> length (filter is_default (all_entries (menu_part_002 info now))) \<le> 1
   \<and> length (filter is_default (menu_pinokio info now)) \<le> 1
   \<and> length (filter is_default (menu_part_002 info now)) \<le> 1
   \<and> (exists info ''app/env'' \<longrightarrow>
        length (filter is_default (menu_pinokio info now)) = 1
        \<and> length (filter is_default (menu_part_002 info now)) = 1)"
  using defaults_pinokio [of info now] defaults_part_002 [of info now] by simp

theorem one_default_witness:
  "exists state_idle ''app/env''
   \<and> length (filter is_default (menu_pinokio state_idle clock)) = 1
   \<and> length (filter is_default (menu_part_002 state_idle clock)) = 1"
proof -
  have e: "exists state_idle ''app/env''"
    by (simp add: state_idle_def)
  with one_default [of state_idle clock] show ?thesis
    by blast
qed

text \<open>
  C3 (as amended). Installed and none of the five scripts running: the menu of
  \<^verbatim>\<open>src/unnamed/part_002\<close> is exactly the five entries ``Start'' (default, its target
  carrying the first clock reading), the submenu ``Start -w Optimization flags'', the
  submenu ``Update'' offering the quick and the full update, ``Install'', and ``Reset''
  with its confirmation prompt. The menu of \<^verbatim>\<open>src/pinokio.js\<close> is the same list except
  for its third entry, which is a plain ``Update'' entry whose target is \<^verbatim>\<open>update.js\<close>.
\<close>

theorem idle_menu:
  assumes "exists info ''app/env''"
    and "\<not> running info ''install.js''" and "\<not> running info ''start.js''"
    and "\<not> running info ''update.js''" and "\<not> running info ''quick_update.js''"
    and "\<not> running info ''reset.js''"
  shows "menu_part_002 info now =
     [Item (Some True) ''fa-solid fa-power-off'' ''Start''
        (Some (''start.js?ts='' @ number_to_string (now 0))) None None,
      Item None ''fa-solid fa-power-off'' ''Start -w Optimization flags'' None
        (Some
          [Item None ''fa-solid fa-power-off''
             ''<div><strong>Start</strong><br><div>+SageAttention2</div></div>''
             (Some (''start.js?sage=true&ts='' @ number_to_string (now 1))) None None,
           Item None ''fa-solid fa-power-off''
             ''<div><strong>Start</strong><br><div>+FlashAttention2</div></div>''
             (Some (''start.js?flash=true&ts='' @ number_to_string (now 2))) None None])
        None,
      Item None ''fa-solid fa-plug'' ''Update'' None
        (Some
          [Item None ''fa-solid fa-bolt'' ''Quick Update (Git Pull only)''
             (Some ''quick_update.js'') None None,
           Item None ''fa-solid fa-plug'' ''Full Update (Everything)''
             (Some ''update.js'') None None])
        None,
      Item None ''fa-solid fa-plug'' ''Install'' (Some ''install.js'') None None,
      Item None ''fa-regular fa-circle-xmark'' ''Reset'' (Some ''reset.js'') None
        (Some ''Are you sure you wish to reset the app?'')]
    \<and> menu_pinokio info now =
     [Item (Some True) ''fa-solid fa-power-off'' ''Start''
        (Some (''start.js?ts='' @ number_to_string (now 0))) None None,
      Item None ''fa-solid fa-power-off'' ''Start -w Optimization flags'' None
        (Some
          [Item None ''fa-solid fa-power-off''
             ''<div><strong>Start</strong><br><div>+SageAttention2</div></div>''
             (Some (''start.js?sage=true&ts='' @ number_to_string (now 1))) None None,
           Item None ''fa-solid fa-power-off''
             ''<div><strong>Start</strong><br><div>+FlashAttention2</div></div>''
             (Some (''start.js?flash=true&ts='' @ number_to_string (now 2))) None None])
        None,
      Item None ''fa-solid fa-plug'' ''Update'' (Some ''update.js'') None None,
      Item None ''fa-solid fa-plug'' ''Install'' (Some ''install.js'') None None,
      Item None ''fa-regular fa-circle-xmark'' ''Reset'' (Some ''reset.js'') None
        (Some ''Are you sure you wish to reset the app?'')]"
  using assms by (simp add: menu_part_002_idle menu_pinokio_idle)

theorem idle_menu_witness:
  "exists state_idle ''app/env''
   \<and> \<not> running state_idle ''install.js'' \<and> \<not> running state_idle ''start.js''
   \<and> \<not> running state_idle ''update.js'' \<and> \<not> running state_idle ''quick_update.js''
   \<and> \<not> running state_idle ''reset.js''
   \<and> menu_part_002 state_idle clock =
     [Item (Some True) ''fa-solid fa-power-off'' ''Start''
        (Some ''start.js?ts=1762099200000'') None None,
      Item None ''fa-solid fa-power-off'' ''Start -w Optimization flags'' None
        (Some
          [Item None ''fa-solid fa-power-off''
             ''<div><strong>Start</strong><br><div>+SageAttention2</div></div>''
             (Some ''start.js?sage=true&ts=1762099200001'') None None,
           Item None ''fa-solid fa-power-off''
             ''<div><strong>Start</strong><br><div>+FlashAttention2</div></div>''
             (Some ''start.js?flash=true&ts=1762099200002'') None None])
        None,
      Item None ''fa-solid fa-plug'' ''Update'' None
        (Some
          [Item None ''fa-solid fa-bolt'' ''Quick Update (Git Pull only)''
             (Some ''quick_update.js'') None None,
           Item None ''fa-solid fa-plug'' ''Full Update (Everything)''
             (Some ''update.js'') None None])
        None,
      Item None ''fa-solid fa-plug'' ''Install'' (Some ''install.js'') None None,
      Item None ''fa-regular fa-circle-xmark'' ''Reset'' (Some ''reset.js'') None
        (Some ''Are you sure you wish to reset the app?'')]
   \<and> map item_text (menu_pinokio state_idle clock) =
       [''Start'', ''Start -w Optimization flags'', ''Update'', ''Install'', ''Reset'']"
proof -
  have h: "exists state_idle ''app/env''"
    "\<not> running state_idle ''install.js''" "\<not> running state_idle ''start.js''"
    "\<not> running state_idle ''update.js''" "\<not> running state_idle ''quick_update.js''"
    "\<not> running state_idle ''reset.js''"
    by (simp_all add: state_idle_def)
  from idle_menu [OF h, of clock] show ?thesis
    using h by (simp add: number_to_string_clock)
qed

text \<open>
  The claim as stated fails for \<^verbatim>\<open>src/pinokio.js\<close>: in the idle state its third entry
  offers no submenu.
\<close>

theorem idle_menu_counterexample:
  "exists state_idle ''app/env''
   \<and> \<not> running state_idle ''install.js'' \<and> \<not> running state_idle ''start.js''
   \<and> \<not> running state_idle ''update.js'' \<and> \<not> running state_idle ''quick_update.js''
   \<and> \<not> running state_idle ''reset.js''
   \<and> menu_pinokio state_idle clock ! 2 =
       Item None ''fa-solid fa-plug'' ''Update'' (Some ''update.js'') None None
   \<and> item_menu (menu_pinokio state_idle clock ! 2) = None"
  by (simp add: menu_pinokio_def state_idle_def)

text \<open>
  C1 (as amended). Installed, the start script running and the install script not running.
  When the start script has published a non-empty address \<open>u\<close>, the menu of
  \<^verbatim>\<open>src/unnamed/part_002\<close> is exactly two entries: ``Open Web UI'', marked default, whose
  target is \<open>u\<close> followed by \<^verbatim>\<open>?ts=\<close> and the clock reading in decimal, and then
  ``Terminal'', not marked default, whose target is \<^verbatim>\<open>start.js\<close>; two evaluations whose
  clock readings differ give different targets. The menu of \<^verbatim>\<open>src/pinokio.js\<close> is then
  exactly ``Open Web UI'', marked default, whose target is \<open>u\<close> itself with nothing
  appended, followed by the same ``Terminal'' entry. When no address is published, both
  menus are the single entry ``Terminal'', marked default.
\<close>

theorem started_menu:
  assumes "exists info ''app/env''" and "running info ''start.js''"
    and "\<not> running info ''install.js''"
  shows "(local_url (local info ''start.js'') = Some u \<longrightarrow>
        menu_part_002 info now =
          [Item (Some True) ''fa-solid fa-rocket'' ''Open Web UI''
             (Some (u @ ''?ts='' @ number_to_string (now 0))) None None,
           Item None ''fa-solid fa-terminal'' ''Terminal'' (Some ''start.js'') None None]
        \<and> (now 0 \<noteq> now' 0 \<longrightarrow>
             item_href (hd (menu_part_002 info now'))
               \<noteq> item_href (hd (menu_part_002 info now)))
        \<and> menu_pinokio info now =
              [Item (Some True) ''fa-solid fa-rocket'' ''Open Web UI'' (Some u) None None,
               Item None ''fa-solid fa-terminal'' ''Terminal'' (Some ''start.js'') None None])
     \<and> (local_url (local info ''start.js'') = None \<longrightarrow>
        menu_part_002 info now =
          [Item (Some True) ''fa-solid fa-terminal'' ''Terminal'' (Some ''start.js'') None None]
        \<and> menu_pinokio info now =
          [Item (Some True) ''fa-solid fa-terminal'' ''Terminal'' (Some ''start.js'') None None])"
proof -
  have inj: "now 0 \<noteq> now' 0 \<Longrightarrow> number_to_string (now' 0) \<noteq> number_to_string (now 0)"
    using number_to_string_inj [of "now' 0" "now 0"] by auto
  from assms inj show ?thesis
    by (simp add: menu_part_002_started menu_pinokio_started)
qed

theorem started_menu_witness:
  "exists state_started ''app/env'' \<and> running state_started ''start.js''
   \<and> \<not> running state_started ''install.js''
   \<and> local_url (local state_started ''start.js'') = Some ''http://localhost:7860''
   \<and> clock 0 \<noteq> clock_later 0
   \<and> menu_part_002 state_started clock =
       [Item (Some True) ''fa-solid fa-rocket'' ''Open Web UI''
          (Some ''http://localhost:7860?ts=1762099200000'') None None,
        Item None ''fa-solid fa-terminal'' ''Terminal'' (Some ''start.js'') None None]
   \<and> item_href (hd (menu_part_002 state_started clock_later))
       \<noteq> item_href (hd (menu_part_002 state_started clock))
   \<and> exists state_starting ''app/env'' \<and> running state_starting ''start.js''
   \<and> \<not> running state_starting ''install.js''
   \<and> local_url (local state_starting ''start.js'') = None
   \<and> menu_part_002 state_starting clock =
       [Item (Some True) ''fa-solid fa-terminal'' ''Terminal'' (Some ''start.js'') None None]
   \<and> menu_pinokio state_starting clock =
       [Item (Some True) ''fa-solid fa-terminal'' ''Terminal'' (Some ''start.js'') None None]"
proof -
  have a: "exists state_started ''app/env''" "running state_started ''start.js''"
    "\<not> running state_started ''install.js''"
    and u: "local_url (local state_started ''start.js'') = Some ''http://localhost:7860''"
    by (simp_all add: state_started_def local_url_def)
  have b: "exists state_starting ''app/env''" "running state_starting ''start.js''"
    "\<not> running state_starting ''install.js''"
    and n: "local_url (local state_starting ''start.js'') = None"
    by (simp_all add: state_starting_def local_url_def)
  have c: "clock 0 \<noteq> clock_later 0"
    by (simp add: clock_def clock_later_def)
  from started_menu [OF a, of "''http://localhost:7860''" clock clock_later] u c
  have m: "menu_part_002 state_started clock =
       [Item (Some True) ''fa-solid fa-rocket'' ''Open Web UI''
          (Some (''http://localhost:7860'' @ ''?ts='' @ number_to_string (clock 0))) None None,
        Item None ''fa-solid fa-terminal'' ''Terminal'' (Some ''start.js'') None None]"
    and d: "item_href (hd (menu_part_002 state_started clock_later))
       \<noteq> item_href (hd (menu_part_002 state_started clock))"
    by blast+
  from m have m': "menu_part_002 state_started clock =
       [Item (Some True) ''fa-solid fa-rocket'' ''Open Web UI''
          (Some ''http://localhost:7860?ts=1762099200000'') None None,
        Item None ''fa-solid fa-terminal'' ''Terminal'' (Some ''start.js'') None None]"
    by (simp add: number_to_string_clock)
  from started_menu [OF b, of "[]" clock clock] n
  have t: "menu_part_002 state_starting clock =
       [Item (Some True) ''fa-solid fa-terminal'' ''Terminal'' (Some ''start.js'') None None]"
    "menu_pinokio state_starting clock =
       [Item (Some True) ''fa-solid fa-terminal'' ''Terminal'' (Some ''start.js'') None None]"
    by blast+
  from a b u n c m' d t show ?thesis
    by blast
qed

text \<open>
  The claim as stated fails in two places. With the install script running as well, both
  menus are the single entry ``Installing''. And in \<^verbatim>\<open>src/pinokio.js\<close> the target of
  ``Open Web UI'' is the published address alone, the same at every clock reading.
\<close>

theorem started_menu_counterexample:
  "exists state_all_running ''app/env'' \<and> running state_all_running ''start.js''
   \<and> local_url (local state_all_running ''start.js'') = Some ''http://localhost:7860''
   \<and> menu_part_002 state_all_running clock =
       [Item (Some True) ''fa-solid fa-plug'' ''Installing'' (Some ''install.js'') None None]
   \<and> menu_pinokio state_all_running clock =
       [Item (Some True) ''fa-solid fa-plug'' ''Installing'' (Some ''install.js'') None None]
   \<and> exists state_started ''app/env'' \<and> running state_started ''start.js''
   \<and> local_url (local state_started ''start.js'') = Some ''http://localhost:7860''
   \<and> clock 0 \<noteq> clock_later 0
   \<and> item_href (hd (menu_pinokio state_started clock)) = Some ''http://localhost:7860''
   \<and> item_href (hd (menu_pinokio state_started clock_later)) = Some ''http://localhost:7860''"
  by (simp add: menu_pinokio_def menu_part_002_def state_all_running_def state_started_def
      local_url_def clock_def clock_later_def)

section \<open>The provisioning scripts\<close>

lemma update_lines_checked:
  "list_all (\<lambda>c. checkout_of c \<noteq> None \<longrightarrow> pull_or_else_clone c)
     (concat (map commands update_run))"
  by code_simp

lemma same_checkouts: "managed_checkouts update_run = managed_checkouts install_run"
  by code_simp

lemma seven_checkouts: "length (managed_checkouts install_run) = 7"
  by code_simp

lemma update_kinds:
  "map kind_of update_run = [SelfPull, PullOrElseClone, DependencyInstall, Bootstrap]"
  by code_simp

text \<open>
  C2 (as amended). In the update script, every command line that acts on a named checkout
  is of the pull-or-else-clone form: a pull inside the checkout, or else a clone into that
  same directory. The checkouts so handled are the seven that the install script creates
  (the application, its five extension modules and the companion tool), in the same order.
\<close>

theorem update_pulls_or_else_clones:
  assumes "s \<in> set update_run" and "c \<in> set (commands s)" and "checkout_of c \<noteq> None"
  shows "pull_or_else_clone c
         \<and> managed_checkouts update_run = managed_checkouts install_run
         \<and> length (managed_checkouts install_run) = 7"
proof -
  from assms(1,2) have "c \<in> set (concat (map commands update_run))"
    by auto
  with update_lines_checked assms(3) have "pull_or_else_clone c"
    by (simp add: list_all_iff del: set_concat)
  with same_checkouts seven_checkouts show ?thesis
    by simp
qed

theorem update_pulls_or_else_clones_witness:
  "update_run ! 1 \<in> set update_run
   \<and> ''git -C comfyui pull || git clone https://github.com/comfyanonymous/ComfyUI.git comfyui''
       \<in> set (commands (update_run ! 1))
   \<and> checkout_of
        ''git -C comfyui pull || git clone https://github.com/comfyanonymous/ComfyUI.git comfyui''
       = Some ''comfyui''
   \<and> pull_or_else_clone
        ''git -C comfyui pull || git clone https://github.com/comfyanonymous/ComfyUI.git comfyui''"
proof -
  have s: "update_run ! 1 \<in> set update_run"
    by (simp add: update_run_def)
  have c: "''git -C comfyui pull || git clone https://github.com/comfyanonymous/ComfyUI.git comfyui''
       \<in> set (commands (update_run ! 1))"
    by (simp add: update_run_def)
  have d: "checkout_of
        ''git -C comfyui pull || git clone https://github.com/comfyanonymous/ComfyUI.git comfyui''
       = Some ''comfyui''"
    by code_simp
  then have n: "checkout_of
        ''git -C comfyui pull || git clone https://github.com/comfyanonymous/ComfyUI.git comfyui''
       \<noteq> None"
    by simp
  from update_pulls_or_else_clones [OF s c n] s c d show ?thesis
    by blast
qed

text \<open>
  The claim as stated fails on the install script: its first command line acts on the
  checkout \<^verbatim>\<open>app/comfyui\<close> and is a clone with no pull before it.
\<close>

theorem install_clones_counterexample:
  "hd install_run \<in> set install_run
   \<and> ''git clone https://github.com/comfyanonymous/ComfyUI app/comfyui''
       \<in> set (commands (hd install_run))
   \<and> alternatives ''git clone https://github.com/comfyanonymous/ComfyUI app/comfyui''
       = [Clone ''https://github.com/comfyanonymous/ComfyUI'' ''app/comfyui'']
   \<and> checkout_of ''git clone https://github.com/comfyanonymous/ComfyUI app/comfyui''
       = Some ''app/comfyui''
   \<and> \<not> pull_or_else_clone ''git clone https://github.com/comfyanonymous/ComfyUI app/comfyui''"
proof -
  have "hd install_run \<in> set install_run"
    and "''git clone https://github.com/comfyanonymous/ComfyUI app/comfyui''
       \<in> set (commands (hd install_run))"
    by (simp_all add: install_run_def)
  moreover have "alternatives ''git clone https://github.com/comfyanonymous/ComfyUI app/comfyui''
       = [Clone ''https://github.com/comfyanonymous/ComfyUI'' ''app/comfyui'']"
    by code_simp
  moreover have "checkout_of ''git clone https://github.com/comfyanonymous/ComfyUI app/comfyui''
       = Some ''app/comfyui''"
    by code_simp
  moreover have
    "\<not> pull_or_else_clone ''git clone https://github.com/comfyanonymous/ComfyUI app/comfyui''"
    by code_simp
  ultimately show ?thesis
    by blast
qed

text \<open>
  C8 (as amended). The full-update script consists, in this order, of: a plain pull of
  the launcher's own checkout (the single line \<^verbatim>\<open>git pull\<close>, run with neither a
  \<^verbatim>\<open>path\<close> nor a virtual environment, and with no clone to fall back on); one step, run
  in \<^verbatim>\<open>app\<close>, whose lines are the pull-or-else-clone lines of the seven managed
  checkouts; one dependency-install step, which is the very step of the install script
  (the same four requirement sets in the same order, inside the same virtual environment);
  and the delegated bootstrap; nothing comes after the bootstrap.
\<close>

theorem full_update_shape:
  "length update_run = 4
   \<and> map kind_of update_run = [SelfPull, PullOrElseClone, DependencyInstall, Bootstrap]
   \<and> update_run ! 0 = ShellRun None None (Single ''git pull'')
   \<and> update_run ! 1 = ShellRun None (Some ''app'') (Sequence
        [''git -C comfyui pull || git clone https://github.com/comfyanonymous/ComfyUI.git comfyui'',
         ''git -C comfyui/custom_nodes/ComfyUI-Manager pull || git clone https://github.com/ltdrdata/ComfyUI-Manager.git comfyui/custom_nodes/ComfyUI-Manager'',
         ''git -C comfyui/custom_nodes/ComfyUI-GGUF pull || git clone https://github.com/city96/ComfyUI-GGUF.git comfyui/custom_nodes/ComfyUI-GGUF'',
         ''git -C comfyui/custom_nodes/ComfyUI-SeedVR2_VideoUpscaler pull || git clone https://github.com/SeedVR2/ComfyUI-SeedVR2_VideoUpscaler.git comfyui/custom_nodes/ComfyUI-SeedVR2_VideoUpscaler'',
         ''git -C comfyui/custom_nodes/ComfyUI-VideoHelperSuite pull || git clone https://github.com/Kosinkadink/ComfyUI-VideoHelperSuite.git comfyui/custom_nodes/ComfyUI-VideoHelperSuite'',
         ''git -C comfyui/custom_nodes/SeedVarianceEnhancer pull || git clone https://github.com/ChangeTheConstants/SeedVarianceEnhancer.git comfyui/custom_nodes/SeedVarianceEnhancer'',
         ''git -C CameraPromptsGenerator pull || git clone https://github.com/demon4932/CameraPromptsGenerator.git CameraPromptsGenerator''])
   \<and> step_checkouts (update_run ! 1) = managed_checkouts install_run
   \<and> update_run ! 2 = install_run ! 1
   \<and> update_run ! 2 = ShellRun (Some ''env'') (Some ''app'') (Sequence
        [''uv pip install -r comfyui/requirements.txt'',
         ''uv pip install -r requirements.txt'',
         ''uv pip install gguf>=0.13.0 sentencepiece protobuf'',
         ''uv pip install einops omegaconf>=2.3.0 diffusers>=0.33.1 peft>=0.17.0 rotary_embedding_torch>=0.5.3 opencv-python matplotlib imageio-ffmpeg''])
   \<and> update_run ! 3 = ScriptStart ''torch.js'' [(''venv'', Text ''env''), (''path'', Text ''app'')]"
proof -
  have "length update_run = 4"
    by (simp add: update_run_def)
  moreover have "update_run ! 0 = ShellRun None None (Single ''git pull'')"
    by (simp add: update_run_def)
  moreover have "update_run ! 1 = ShellRun None (Some ''app'') (Sequence
        [''git -C comfyui pull || git clone https://github.com/comfyanonymous/ComfyUI.git comfyui'',
         ''git -C comfyui/custom_nodes/ComfyUI-Manager pull || git clone https://github.com/ltdrdata/ComfyUI-Manager.git comfyui/custom_nodes/ComfyUI-Manager'',
         ''git -C comfyui/custom_nodes/ComfyUI-GGUF pull || git clone https://github.com/city96/ComfyUI-GGUF.git comfyui/custom_nodes/ComfyUI-GGUF'',
         ''git -C comfyui/custom_nodes/ComfyUI-SeedVR2_VideoUpscaler pull || git clone https://github.com/SeedVR2/ComfyUI-SeedVR2_VideoUpscaler.git comfyui/custom_nodes/ComfyUI-SeedVR2_VideoUpscaler'',
         ''git -C comfyui/custom_nodes/ComfyUI-VideoHelperSuite pull || git clone https://github.com/Kosinkadink/ComfyUI-VideoHelperSuite.git comfyui/custom_nodes/ComfyUI-VideoHelperSuite'',
         ''git -C comfyui/custom_nodes/SeedVarianceEnhancer pull || git clone https://github.com/ChangeTheConstants/SeedVarianceEnhancer.git comfyui/custom_nodes/SeedVarianceEnhancer'',
         ''git -C CameraPromptsGenerator pull || git clone https://github.com/demon4932/CameraPromptsGenerator.git CameraPromptsGenerator''])"
    by (simp add: update_run_def)
  moreover have "step_checkouts (update_run ! 1) = managed_checkouts install_run"
    by code_simp
  moreover have "update_run ! 2 = install_run ! 1"
    by (simp add: update_run_def install_run_def)
  moreover have "update_run ! 2 = ShellRun (Some ''env'') (Some ''app'') (Sequence
        [''uv pip install -r comfyui/requirements.txt'',
         ''uv pip install -r requirements.txt'',
         ''uv pip install gguf>=0.13.0 sentencepiece protobuf'',
         ''uv pip install einops omegaconf>=2.3.0 diffusers>=0.33.1 peft>=0.17.0 rotary_embedding_torch>=0.5.3 opencv-python matplotlib imageio-ffmpeg''])"
    by (simp add: update_run_def)
  moreover have
    "update_run ! 3 = ScriptStart ''torch.js'' [(''venv'', Text ''env''), (''path'', Text ''app'')]"
    by (simp add: update_run_def)
  ultimately show ?thesis
    using update_kinds by blast
qed

text \<open>
  The claim as stated fails at the first step of the script: it is a repository step, a
  bare \<^verbatim>\<open>git pull\<close>, and not of the pull-or-else-clone form.
\<close>

theorem full_update_shape_counterexample:
  "hd update_run = ShellRun None None (Single ''git pull'')
   \<and> commands (hd update_run) = [''git pull'']
   \<and> alternatives ''git pull'' = [Pull None]
   \<and> \<not> pull_or_else_clone ''git pull''
   \<and> kind_of (hd update_run) = SelfPull"
proof -
  have "hd update_run = ShellRun None None (Single ''git pull'')"
    and "commands (hd update_run) = [''git pull'']"
    by (simp_all add: update_run_def)
  moreover have "alternatives ''git pull'' = [Pull None]"
    by code_simp
  moreover have "\<not> pull_or_else_clone ''git pull''"
    by code_simp
  moreover have "kind_of (hd update_run) = SelfPull"
    by code_simp
  ultimately show ?thesis
    by blast
qed

end
